theory Spec2Isabelle
  imports Complex_Main
begin

section \<open>Sentiment reconciliation engine (src/nlp/sentiment_classifier.py)\<close>

text \<open>
  A shallow embedding of class \<open>SentimentEnsembler\<close>. Labels are Python strings and
  stay strings here. Every \<^verbatim>\<open>raise\<close> and every failing lookup of the source is a
  value \<open>Inl e\<close> of a sum type.

  Python floats are binary64 numbers. The two functions that compute with them are
  given twice. \<open>compute_ensemble\<close> and \<open>flag_disagreement\<close> read the arithmetic of the
  source over the reals, with no rounding: they serve where rounding has no bearing,
  that is for which label a score gets, which rule label a rating admits and which
  rows \<open>run\<close> builds. \<open>compute_ensemble_binary64\<close> and \<open>flag_disagreement_binary64\<close>
  round every operation to the nearest binary64 number, as the machine does: they
  serve wherever a statement is about the value computed. Infinities and NaN are not
  represented in either reading.
\<close>

subsection \<open>Errors\<close>

text \<open>
  \<open>KeyError\<close> is raised by \<open>run\<close> (line 195) and by a failing dictionary or row
  lookup; \<open>ValueError\<close> and \<open>TypeError\<close> are what the builtin \<open>int\<close> raises.
  \<open>ValidationError\<close> is the name used by the specification; no line of the source
  constructs it.
\<close>

datatype error = KeyError | ValueError | TypeError | ValidationError

subsection \<open>The scorers\<close>

text \<open>
  The three scorer adapters (\<open>_bert_score\<close>, \<open>_vader_score\<close>, \<open>_textblob_score\<close>,
  lines 55-85) call external models. The object \<open>self\<close> is modelled by the three
  functions from text to score that it provides.
\<close>

record ensembler =
  bert_score :: "string \<Rightarrow> real"
  vader_score :: "string \<Rightarrow> real"
  textblob_score :: "string \<Rightarrow> real"

subsection \<open>numpy's standard deviation\<close>

text \<open>
  In exact arithmetic, \<open>np.std(a)\<close> with its default arguments is
  \<open>sqrt(mean(abs(a - a.mean())**2))\<close>: the divisor is the number of elements.
  On the empty list numpy returns NaN; here the division by zero gives 0. The source
  only calls it on a list of three elements.
\<close>

definition np_mean :: "real list \<Rightarrow> real" where
  "np_mean a = sum_list a / real (length a)"

definition np_std :: "real list \<Rightarrow> real" where
  "np_std a = sqrt (np_mean (map (\<lambda>x. \<bar>x - np_mean a\<bar> ^ 2) a))"

subsection \<open>compute_ensemble (lines 87-122)\<close>

record ensemble_result =
  bert :: real
  vader :: real
  textblob :: real
  ensemble :: real
  label :: string
  uncertainty :: real

definition compute_ensemble :: "ensembler \<Rightarrow> string \<Rightarrow> ensemble_result" where
  "compute_ensemble self text =
     (let b_score = bert_score self text;
          v_score = vader_score self text;
          t_score = textblob_score self text;
          ensemble_score = (b_score + v_score + t_score) / 3;
          uncertainty = np_std [b_score, v_score, t_score];
          label = (if ensemble_score \<ge> 0.05 then ''positive''
                   else if ensemble_score \<le> - 0.05 then ''negative''
                   else ''neutral'')
      in \<lparr>bert = b_score, vader = v_score, textblob = t_score,
          ensemble = ensemble_score, label = label, uncertainty = uncertainty\<rparr>)"

subsection \<open>apply_rating_rule (lines 124-144)\<close>

text \<open>The local variable \<open>allowed\<close> of the source, as a function of the rating.\<close>

definition allowed :: "int \<Rightarrow> string set" where
  "allowed rating =
     (if rating \<ge> 5 then {''positive'', ''neutral'', ''negative''}
      else if rating = 4 then {''positive'', ''neutral'', ''negative''}
      else if rating = 3 then {''positive'', ''neutral'', ''negative''}
      else if rating = 2 then {''neutral'', ''negative''}
      else {''negative''})"

definition apply_rating_rule :: "string \<Rightarrow> int \<Rightarrow> string" where
  "apply_rating_rule ensemble_label rating =
     (if ensemble_label \<in> allowed rating then ensemble_label else ''neutral'')"

subsection \<open>flag_disagreement (lines 146-171)\<close>

text \<open>
  The dictionary literal of line 169. Indexing it with a key it does not hold raises
  \<open>KeyError\<close>, before the comparison of line 171 is evaluated.
\<close>

definition rule_vals :: "(string \<times> int) list" where
  "rule_vals = [(''positive'', 1), (''neutral'', 0), (''negative'', - 1)]"

definition flag_disagreement :: "string \<Rightarrow> string \<Rightarrow> real \<Rightarrow> real \<Rightarrow> error + bool" where
  "flag_disagreement ens_label rule_label ens_score threshold =
     (case map_of rule_vals rule_label of
        None \<Rightarrow> Inl KeyError
      | Some rule_val \<Rightarrow>
          Inr (ens_label \<noteq> rule_label \<and> \<bar>ens_score - of_int rule_val\<bar> > threshold))"

text \<open>The default value of the parameter \<open>threshold\<close> (line 147).\<close>

definition default_threshold :: real where
  "default_threshold = 0.5"

subsection \<open>Binary64 arithmetic\<close>

text \<open>
  A binary64 number is a real \<open>n * 2 ^ (e - 52)\<close> with an integer \<open>n\<close> of at most 53
  bits and an exponent \<open>e\<close> from -1022 on. Every arithmetic operation of the machine
  returns the exact result rounded to the nearest such number, the one with the even
  \<open>n\<close> when two are equally near. \<open>rnd64\<close> is this rounding: \<open>exponent64 x\<close> is the
  exponent of the binade of \<open>x\<close> (never below -1022, where the numbers are subnormal)
  and \<open>ulp64 x\<close> the distance between neighbouring binary64 numbers there. Results
  beyond the largest binary64 number would be infinite on the machine. None arises in
  the theorems below: the scores they sum lie in [-1, 1], and subtracting 1, 0 or -1
  from a binary64 number never leaves the range.
\<close>

definition round_half_even :: "real \<Rightarrow> int" where
  "round_half_even y =
     (let n = \<lfloor>y\<rfloor>; d = y - of_int n
      in if d < 1 / 2 then n else if d > 1 / 2 then n + 1
         else if even n then n else n + 1)"

definition exponent64 :: "real \<Rightarrow> int" where
  "exponent64 x = max \<lfloor>log 2 \<bar>x\<bar>\<rfloor> (- 1022)"

definition ulp64 :: "real \<Rightarrow> real" where
  "ulp64 x = 2 powi (exponent64 x - 52)"

definition rnd64 :: "real \<Rightarrow> real" where
  "rnd64 x = (if x = 0 then 0 else of_int (round_half_even (x / ulp64 x)) * ulp64 x)"

text \<open>
  \<open>np.std(a)\<close> on a list of floats, as \<open>_var\<close> and \<open>_std\<close> of numpy compute it with the
  default arguments: the sum divided by the count, the deviations \<open>a - mean\<close>, their
  squares by multiplication, the sum of the squares divided by the count, the square
  root. Each operation is rounded; a sum of fewer than eight numbers is accumulated
  from left to right, starting from 0. The source calls it on three scores only; on
  the empty list numpy returns NaN, which is not represented.
\<close>

definition sum64 :: "real list \<Rightarrow> real" where
  "sum64 a = foldl (\<lambda>acc x. rnd64 (acc + x)) 0 a"

definition np_std_binary64 :: "real list \<Rightarrow> real" where
  "np_std_binary64 a =
     (let n = real (length a);
          arrmean = rnd64 (sum64 a / n);
          x = map (\<lambda>v. rnd64 (v - arrmean)) a;
          x2 = map (\<lambda>d. rnd64 (d * d)) x;
          ret = rnd64 (sum64 x2 / n)
      in rnd64 (sqrt ret))"

text \<open>
  Lines 100-122 in binary64. The literal \<open>0.05\<close> denotes the binary64 number nearest
  to 1/20; the divisor \<open>3.0\<close> is exact.
\<close>

definition compute_ensemble_binary64 :: "ensembler \<Rightarrow> string \<Rightarrow> ensemble_result" where
  "compute_ensemble_binary64 self text =
     (let b_score = bert_score self text;
          v_score = vader_score self text;
          t_score = textblob_score self text;
          ensemble_score = rnd64 (rnd64 (rnd64 (b_score + v_score) + t_score) / 3);
          uncertainty = np_std_binary64 [b_score, v_score, t_score];
          label = (if ensemble_score \<ge> rnd64 0.05 then ''positive''
                   else if ensemble_score \<le> - rnd64 0.05 then ''negative''
                   else ''neutral'')
      in \<lparr>bert = b_score, vader = v_score, textblob = t_score,
          ensemble = ensemble_score, label = label, uncertainty = uncertainty\<rparr>)"

text \<open>
  Lines 169-171 in binary64: the integer \<open>rule_val\<close> converts exactly, the difference
  is rounded, \<open>abs\<close> and the comparison are exact.
\<close>

definition flag_disagreement_binary64 ::
  "string \<Rightarrow> string \<Rightarrow> real \<Rightarrow> real \<Rightarrow> error + bool" where
  "flag_disagreement_binary64 ens_label rule_label ens_score threshold =
     (case map_of rule_vals rule_label of
        None \<Rightarrow> Inl KeyError
      | Some rule_val \<Rightarrow>
          Inr (ens_label \<noteq> rule_label \<and>
               \<bar>rnd64 (ens_score - of_int rule_val)\<bar> > threshold))"

subsection \<open>Data frames\<close>

text \<open>
  A cell of the input frame holds an arbitrary Python object. \<open>run\<close> applies only the
  builtins \<open>str\<close> and \<open>int\<close> to the cells it reads (lines 201-202), so such an object
  is modelled by what these two return on it: \<open>str\<close> returns a string, \<open>int\<close> returns
  an integer or raises (\<open>ValueError\<close> on NaN or on a string that is no number,
  \<open>TypeError\<close> on None).
\<close>

record pyobj =
  py_str :: string
  py_int :: "error + int"

text \<open>A cell of the output frame: an object passed through, or a value \<open>run\<close> computed.\<close>

datatype cell = Obj pyobj | Float real | Str string | Bool bool

text \<open>
  A frame is its column labels and its rows, each row holding one cell per column.
  The index is left out: \<open>run\<close> resets it (line 214).
\<close>

record 'c dataframe =
  columns :: "string list"
  rows :: "'c list list"

text \<open>
  \<open>row[key]\<close> on a row of \<open>df.iterrows()\<close>: the cell under the column label, and
  \<open>KeyError\<close> when the row has no such label. (Under a label that occurs twice pandas
  returns both cells; frames with repeated labels are not modelled.)
\<close>

definition getitem :: "string list \<Rightarrow> 'c list \<Rightarrow> string \<Rightarrow> error + 'c" where
  "getitem cols row key =
     (case map_of (zip cols row) key of None \<Rightarrow> Inl KeyError | Some c \<Rightarrow> Inr c)"

subsection \<open>run (lines 173-215)\<close>

text \<open>The dictionary \<open>rec\<close> after lines 204-207 have added two keys to it.\<close>

record sentiment_record = ensemble_result +
  rule_label :: string
  flag :: bool

text \<open>The body of the loop, lines 201-207, for one row.\<close>

definition run_row ::
  "ensembler \<Rightarrow> string list \<Rightarrow> string \<Rightarrow> pyobj list \<Rightarrow> error + sentiment_record" where
  "run_row self cols text_col row =
     (case getitem cols row text_col of
        Inl e \<Rightarrow> Inl e
      | Inr text_cell \<Rightarrow>
     (let text = py_str text_cell
      in case getitem cols row ''rating'' of
        Inl e \<Rightarrow> Inl e
      | Inr rating_cell \<Rightarrow>
     (case py_int rating_cell of
        Inl e \<Rightarrow> Inl e
      | Inr rating \<Rightarrow>
     (let rec = compute_ensemble self text;
          rule = apply_rating_rule (label rec) rating
      in case flag_disagreement (label rec) rule (ensemble rec) default_threshold of
           Inl e \<Rightarrow> Inl e
         | Inr fl \<Rightarrow>
             Inr (ensemble_result.extend rec (sentiment_record.fields rule fl))))))"

text \<open>The loop of lines 198-208: \<open>records\<close> is the list built so far.\<close>

fun run_loop ::
  "ensembler \<Rightarrow> string list \<Rightarrow> string \<Rightarrow> sentiment_record list \<Rightarrow> pyobj list list
     \<Rightarrow> error + sentiment_record list" where
  "run_loop self cols text_col records [] = Inr records"
| "run_loop self cols text_col records (row # rest) =
     (case run_row self cols text_col row of
        Inl e \<Rightarrow> Inl e
      | Inr rec \<Rightarrow> run_loop self cols text_col (records @ [rec]) rest)"

text \<open>
  \<open>pd.DataFrame(records, index=df.index)\<close> (line 211): one column per key of the
  dictionaries, in the order the keys were inserted, and one row per dictionary. An
  empty list of dictionaries gives a frame without columns.
\<close>

definition record_columns :: "string list" where
  "record_columns =
     [''bert'', ''vader'', ''textblob'', ''ensemble'', ''label'', ''uncertainty'',
      ''rule_label'', ''flag'']"

definition record_cells :: "sentiment_record \<Rightarrow> cell list" where
  "record_cells rec =
     [Float (bert rec), Float (vader rec), Float (textblob rec), Float (ensemble rec),
      Str (label rec), Float (uncertainty rec), Str (rule_label rec), Bool (flag rec)]"

definition DataFrame :: "sentiment_record list \<Rightarrow> cell dataframe" where
  "DataFrame records =
     \<lparr>columns = (if records = [] then [] else record_columns),
      rows = map record_cells records\<rparr>"

text \<open>
  \<open>pd.concat([a, b], axis=1)\<close> of two frames whose indexes were reset (lines 213-215):
  the columns of \<open>a\<close> then those of \<open>b\<close>, row by row. \<open>run\<close> calls it on two frames
  with the same number of rows; the padding pandas does otherwise is not modelled.
\<close>

definition concat_axis1 :: "cell dataframe \<Rightarrow> cell dataframe \<Rightarrow> cell dataframe" where
  "concat_axis1 a b =
     \<lparr>columns = columns a @ columns b, rows = map2 (@) (rows a) (rows b)\<rparr>"

definition run :: "ensembler \<Rightarrow> pyobj dataframe \<Rightarrow> string \<Rightarrow> error + cell dataframe" where
  "run self df text_col =
     (if text_col \<notin> set (columns df) \<or> ''rating'' \<notin> set (columns df) then Inl KeyError
      else case run_loop self (columns df) text_col [] (rows df) of
             Inl e \<Rightarrow> Inl e
           | Inr records \<Rightarrow>
               Inr (concat_axis1
                      \<lparr>columns = columns df, rows = map (map Obj) (rows df)\<rparr>
                      (DataFrame records)))"

text \<open>The default value of the parameter \<open>text_col\<close> (line 174).\<close>

definition default_text_col :: string where
  "default_text_col = ''normalized_review''"

section \<open>The specification's vocabulary\<close>

text \<open>
  The definitions of this section follow the words of the specification, not the
  source; the theorems below compare the source with them.
\<close>

text \<open>The mapping \<open>numeric\<close> of sections 3 and 4.5: positive +1, neutral 0, negative -1.\<close>

definition numeric :: "string \<rightharpoonup> real" where
  "numeric = [''positive'' \<mapsto> 1, ''neutral'' \<mapsto> 0, ''negative'' \<mapsto> - 1]"

text \<open>The table of section 4.4: the labels a rating from 1 to 5 admits.\<close>

definition allowed_labels :: "int \<Rightarrow> string set" where
  "allowed_labels rating =
     (if rating = 5 \<or> rating = 4 \<or> rating = 3 then {''positive'', ''neutral'', ''negative''}
      else if rating = 2 then {''neutral'', ''negative''}
      else if rating = 1 then {''negative''}
      else {})"


text \<open>The two-condition flag: the rating is 1 or 2 and the score exceeds 0.5.\<close>

definition simple_flag :: "int \<Rightarrow> real \<Rightarrow> bool" where
  "simple_flag rating score = ((rating = 1 \<or> rating = 2) \<and> score > 0.5)"

section \<open>Auxiliary facts\<close>

lemma map_of_rule_vals:
  "map_of rule_vals l =
     (if l = ''positive'' then Some 1 else if l = ''neutral'' then Some 0
      else if l = ''negative'' then Some (- 1) else None)"
  by (simp add: rule_vals_def)

lemma label_compute_ensemble:
  "label (compute_ensemble self text) \<in> {''positive'', ''neutral'', ''negative''}"
  by (simp add: compute_ensemble_def Let_def)

lemma apply_rating_rule_label:
  "l \<in> {''positive'', ''neutral'', ''negative''} \<Longrightarrow>
   apply_rating_rule l r \<in> {''positive'', ''neutral'', ''negative''}"
  by (simp add: apply_rating_rule_def)

lemma flag_disagreement_returns:
  "rl \<in> {''positive'', ''neutral'', ''negative''} \<Longrightarrow>
   \<exists>b. flag_disagreement el rl s thr = Inr b"
  by (auto simp add: flag_disagreement_def map_of_rule_vals)

lemma getitem_present:
  assumes "length row = length cols" and "key \<in> set cols"
  shows "\<exists>c. getitem cols row key = Inr c"
proof -
  from assms have "\<exists>c. map_of (zip cols row) key = Some c"
    by (simp add: map_of_zip_is_Some [symmetric])
  then show ?thesis by (auto simp add: getitem_def)
qed

lemma run_row_returns:
  assumes "getitem cols row text_col = Inr c1"
    and "getitem cols row ''rating'' = Inr c2"
    and "py_int c2 = Inr n"
  shows "\<exists>rec. run_row self cols text_col row = Inr rec"
proof -
  let ?r = "compute_ensemble self (py_str c1)"
  have "apply_rating_rule (label ?r) n \<in> {''positive'', ''neutral'', ''negative''}"
    by (rule apply_rating_rule_label [OF label_compute_ensemble])
  then obtain b where
    "flag_disagreement (label ?r) (apply_rating_rule (label ?r) n) (ensemble ?r)
       default_threshold = Inr b"
    using flag_disagreement_returns by blast
  with assms show ?thesis by (simp add: run_row_def Let_def)
qed

lemma run_loop_returns:
  assumes "\<forall>row\<in>set rs. \<exists>rec. run_row self cols text_col row = Inr rec"
  shows "\<exists>recs. run_loop self cols text_col acc rs = Inr (acc @ recs) \<and>
           length recs = length rs \<and>
           (\<forall>i<length rs. run_row self cols text_col (rs ! i) = Inr (recs ! i))"
  using assms
proof (induction rs arbitrary: acc)
  case Nil
  then show ?case by simp
next
  case (Cons row rest)
  then obtain rec where rec: "run_row self cols text_col row = Inr rec" by auto
  from Cons obtain recs where recs:
    "run_loop self cols text_col (acc @ [rec]) rest = Inr ((acc @ [rec]) @ recs)"
    "length recs = length rest"
    "\<forall>i<length rest. run_row self cols text_col (rest ! i) = Inr (recs ! i)"
    by (metis list.set_intros(2))
  have "\<forall>i<length (row # rest). run_row self cols text_col ((row # rest) ! i) = Inr ((rec # recs) ! i)"
    using rec recs(3) by (auto simp add: nth_Cons split: nat.splits)
  with rec recs(1,2) show ?case
    by (intro exI [of _ "rec # recs"]) simp
qed

lemma run_row_fields:
  assumes "getitem cols row text_col = Inr c1"
    and "getitem cols row ''rating'' = Inr c2"
    and "py_int c2 = Inr n"
    and "run_row self cols text_col row = Inr rec"
  shows "ensemble rec = ensemble (compute_ensemble self (py_str c1)) \<and>
         label rec = label (compute_ensemble self (py_str c1)) \<and>
         rule_label rec = apply_rating_rule (label rec) n \<and>
         flag_disagreement (label rec) (rule_label rec) (ensemble rec) default_threshold
           = Inr (flag rec)"
  using assms
  by (auto simp add: run_row_def Let_def ensemble_result.defs sentiment_record.defs
      split: sum.splits)

subsection \<open>Rounding to binary64\<close>

lemma round_half_even_error: "\<bar>of_int (round_half_even y) - y\<bar> \<le> 1 / 2"
  unfolding round_half_even_def Let_def by (auto; linarith)


lemma exponent64_eq:
  assumes "2 powi e \<le> \<bar>x\<bar>" and "\<bar>x\<bar> < 2 powi (e + 1)" and "- 1022 \<le> e"
  shows "exponent64 x = e"
proof -
  have pos: "0 < \<bar>x\<bar>" using assms(1) by (smt (verit) zero_less_power_int)
  have a: "(2::real) powr real_of_int e = 2 powi e"
    by (rule powr_real_of_int') simp_all
  have b: "(2::real) powr (real_of_int e + 1) = 2 powi (e + 1)"
    using powr_real_of_int' [of "2::real" "e + 1"] by simp
  have "\<lfloor>log 2 \<bar>x\<bar>\<rfloor> = e"
    using assms(1,2) pos a b
    by (subst floor_log_eq_powr_iff) simp_all
  with assms(3) show ?thesis by (simp add: exponent64_def)
qed

lemma rnd64_eval:
  assumes "2 powi e \<le> \<bar>x\<bar>" and "\<bar>x\<bar> < 2 powi (e + 1)" and "- 1022 \<le> e"
  shows "rnd64 x = of_int (round_half_even (x / 2 powi (e - 52))) * 2 powi (e - 52)"
proof -
  have "x \<noteq> 0" using assms(1) by (smt (verit) zero_less_power_int)
  then show ?thesis by (simp add: rnd64_def ulp64_def exponent64_eq [OF assms])
qed

lemma ulp64_pos: "0 < ulp64 x"
  by (simp add: ulp64_def zero_less_power_int)

lemma exponent64_le:
  assumes "x \<noteq> 0" and "\<bar>x\<bar> < 2 powi (e + 1)" and "- 1022 \<le> e"
  shows "exponent64 x \<le> e"
proof -
  have b: "(2::real) powr (real_of_int e + 1) = 2 powi (e + 1)"
    using powr_real_of_int' [of "2::real" "e + 1"] by simp
  have "log 2 \<bar>x\<bar> < real_of_int e + 1"
    using assms(1,2) b by (subst log_less_iff) simp_all
  then have "\<lfloor>log 2 \<bar>x\<bar>\<rfloor> \<le> e" by linarith
  with assms(3) show ?thesis by (simp add: exponent64_def)
qed

lemma rnd64_error_ulp: "\<bar>rnd64 x - x\<bar> \<le> ulp64 x / 2"
proof (cases "x = 0")
  case True
  then show ?thesis using ulp64_pos [of x] by (simp add: rnd64_def)
next
  case False
  let ?u = "ulp64 x"
  have u: "0 < ?u" by (rule ulp64_pos)
  have "rnd64 x - x = (of_int (round_half_even (x / ?u)) - x / ?u) * ?u"
    using False u by (simp add: rnd64_def algebra_simps)
  then have "\<bar>rnd64 x - x\<bar> = \<bar>of_int (round_half_even (x / ?u)) - x / ?u\<bar> * ?u"
    using u by (simp add: abs_mult)
  also have "\<dots> \<le> (1 / 2) * ?u"
    using round_half_even_error [of "x / ?u"] u by (intro mult_right_mono) simp_all
  finally show ?thesis by simp
qed

lemma rnd64_error:
  assumes "\<bar>x\<bar> < 2 powi (e + 1)" and "- 1022 \<le> e"
  shows "\<bar>rnd64 x - x\<bar> \<le> 2 powi (e - 53)"
proof (cases "x = 0")
  case True
  then show ?thesis by (simp add: rnd64_def)
next
  case False
  have "exponent64 x - 52 \<le> e - 52"
    using exponent64_le [OF False assms] by simp
  then have "ulp64 x \<le> 2 powi (e - 52)"
    unfolding ulp64_def by (intro power_int_increasing) simp_all
  moreover have "(2::real) powi (e - 52) = 2 * 2 powi (e - 53)"
    using power_int_add [of "2::real" 1 "e - 53"] by simp
  ultimately show ?thesis using rnd64_error_ulp [of x] by simp
qed

lemma round_half_even_le: "z \<le> of_int b \<Longrightarrow> round_half_even z \<le> b"
  unfolding round_half_even_def Let_def by (auto; linarith)

lemma round_half_even_ge: "of_int a \<le> z \<Longrightarrow> a \<le> round_half_even z"
  unfolding round_half_even_def Let_def by (auto; linarith)

lemma round_half_even_of_int [simp]: "round_half_even (of_int n) = n"
  by (simp add: round_half_even_def)

lemma exponent64_mono:
  assumes "y \<noteq> 0" and "\<bar>y\<bar> \<le> \<bar>t\<bar>"
  shows "exponent64 y \<le> exponent64 t"
proof -
  have "log 2 \<bar>y\<bar> \<le> log 2 \<bar>t\<bar>" using assms by (subst log_le_cancel_iff) simp_all
  then have "\<lfloor>log 2 \<bar>y\<bar>\<rfloor> \<le> \<lfloor>log 2 \<bar>t\<bar>\<rfloor>" by (rule floor_mono)
  then show ?thesis by (simp add: exponent64_def)
qed

lemma rnd64_abs_le:
  assumes rep: "rnd64 t = t" and le: "\<bar>y\<bar> \<le> t"
  shows "\<bar>rnd64 y\<bar> \<le> t"
proof (cases "y = 0")
  case True
  with le show ?thesis by (simp add: rnd64_def)
next
  case False
  with le have t: "0 < t" by linarith
  let ?uy = "ulp64 y" and ?ut = "ulp64 t"
  define k where "k = nat (exponent64 t - exponent64 y)"
  define n where "n = round_half_even (t / ?ut)"
  have uy: "0 < ?uy" by (rule ulp64_pos)
  have "exponent64 y \<le> exponent64 t"
    using exponent64_mono [OF False, of t] le t by simp
  then have "exponent64 t - 52 = (exponent64 y - 52) + int k" by (simp add: k_def)
  then have "?ut = 2 powi ((exponent64 y - 52) + int k)"
    unfolding ulp64_def by (rule arg_cong)
  also have "\<dots> = 2 powi (exponent64 y - 52) * 2 powi int k"
    by (rule power_int_add) simp
  finally have ut: "?ut = ?uy * 2 ^ k"
    by (simp add: ulp64_def)
  have "t = of_int n * ?ut" using rep t by (simp add: rnd64_def n_def)
  then have tN: "t = of_int (n * 2 ^ k) * ?uy" by (simp add: ut)
  then have "t / ?uy = of_int (n * 2 ^ k)" using uy by simp
  then have "y / ?uy \<le> of_int (n * 2 ^ k)" "of_int (- (n * 2 ^ k)) \<le> y / ?uy"
    using le uy by (simp_all add: field_simps; linarith)+
  then have "round_half_even (y / ?uy) \<le> n * 2 ^ k"
    and "- (n * 2 ^ k) \<le> round_half_even (y / ?uy)"
    using round_half_even_le round_half_even_ge by blast+
  then have "\<bar>round_half_even (y / ?uy)\<bar> \<le> n * 2 ^ k" by linarith
  then have "\<bar>real_of_int (round_half_even (y / ?uy))\<bar> \<le> of_int (n * 2 ^ k)"
    by (metis of_int_abs of_int_le_iff)
  then have "\<bar>real_of_int (round_half_even (y / ?uy))\<bar> * ?uy \<le> of_int (n * 2 ^ k) * ?uy"
    using uy by (intro mult_right_mono) simp_all
  then show ?thesis using False uy tN by (simp add: rnd64_def abs_mult)
qed

lemma rnd64_power_int:
  assumes "- 1022 \<le> k"
  shows "rnd64 (2 powi k) = 2 powi k" and "rnd64 (- (2 powi k)) = - (2 powi k)"
proof -
  have p: "(2::real) powi k = 4503599627370496 * 2 powi (k - 52)"
    using power_int_add [of "2::real" 52 "k - 52"] by simp
  have e: "(2::real) powi k < 2 powi (k + 1)"
    by (intro power_int_strict_increasing) simp_all
  have u: "(2::real) powi (k - 52) \<noteq> 0" by simp
  have q: "(2::real) powi k / 2 powi (k - 52) = of_int 4503599627370496"
    using u by (simp add: p)
  show "rnd64 (2 powi k) = 2 powi k"
    using e assms by (subst rnd64_eval [where e = k]) (simp_all only: q round_half_even_of_int, simp_all add: p)
  have q': "- ((2::real) powi k) / 2 powi (k - 52) = of_int (- 4503599627370496)"
    using u by (simp add: p)
  show "rnd64 (- (2 powi k)) = - (2 powi k)"
    using e assms by (subst rnd64_eval [where e = k]) (simp_all only: q' round_half_even_of_int, simp_all add: p)
qed

lemma rnd64_error_le:
  assumes "\<bar>x\<bar> \<le> 2 powi (e + 1)" and "- 1022 \<le> e"
  shows "\<bar>rnd64 x - x\<bar> \<le> 2 powi (e - 53)"
proof (cases "\<bar>x\<bar> = 2 powi (e + 1)")
  case True
  then have "x = 2 powi (e + 1) \<or> x = - (2 powi (e + 1))" by linarith
  then have "rnd64 x = x" using rnd64_power_int [of "e + 1"] assms(2) by auto
  then show ?thesis by simp
next
  case False
  with assms(1) have "\<bar>x\<bar> < 2 powi (e + 1)" by simp
  then show ?thesis using assms(2) by (rule rnd64_error)
qed

lemma rnd64_0 [simp]: "rnd64 0 = 0"
  by (simp add: rnd64_def)


lemma rnd64_half: "rnd64 (1 / 2) = 1 / 2"
  using rnd64_power_int(1) [of "- 1"] by (simp add: power_int_minus)

lemma rnd64_1: "rnd64 1 = 1"
  using rnd64_power_int(1) [of 0] by simp


lemma rnd64_2: "rnd64 2 = 2"
  using rnd64_power_int(1) [of 1] by simp









section \<open>The claims\<close>

text \<open>
  Claim C1, as amended. For every ensemble label, rule label, score and threshold,
  \<open>flag_disagreement\<close> in binary64 returns true exactly when the two labels differ and
  the absolute value of the rounded difference between the score and \<open>numeric\<close> of the
  rule label exceeds the threshold; on a rule label outside the three labels the
  dictionary lookup raises \<open>KeyError\<close>. The flag is never true when the two labels are
  equal. Where the difference is a binary64 number, as it always is for the rule label
  neutral and a binary64 score, rounding changes nothing and the flag is the stated
  condition. For a binary64 threshold, such as the default 0.5, a flag that is true
  implies the stated condition on the exact difference.
\<close>

theorem flag_binary64_iff:
  "flag_disagreement_binary64 el rl s thr =
     (case numeric rl of
        None \<Rightarrow> Inl KeyError
      | Some v \<Rightarrow> Inr (el \<noteq> rl \<and> \<bar>rnd64 (s - v)\<bar> > thr)) \<and>
   flag_disagreement_binary64 l l s thr \<noteq> Inr True \<and>
   (numeric rl = Some v \<and> rnd64 (s - v) = s - v \<longrightarrow>
      flag_disagreement_binary64 el rl s thr = Inr (el \<noteq> rl \<and> \<bar>s - v\<bar> > thr)) \<and>
   (rnd64 s = s \<longrightarrow>
      flag_disagreement_binary64 el ''neutral'' s thr =
        Inr (el \<noteq> ''neutral'' \<and> \<bar>s - 0\<bar> > thr)) \<and>
   (rnd64 thr = thr \<and> flag_disagreement_binary64 el rl s thr = Inr True \<longrightarrow>
      el \<noteq> rl \<and> (\<exists>v. numeric rl = Some v \<and> \<bar>s - v\<bar> > thr)) \<and>
   rnd64 default_threshold = default_threshold"
proof -
  have c1: "flag_disagreement_binary64 el' rl' s' thr' =
     (case numeric rl' of
        None \<Rightarrow> Inl KeyError
      | Some v \<Rightarrow> Inr (el' \<noteq> rl' \<and> \<bar>rnd64 (s' - v)\<bar> > thr'))" for el' rl' s' thr'
    by (simp add: flag_disagreement_binary64_def map_of_rule_vals numeric_def)
  have c2: "flag_disagreement_binary64 l l s thr \<noteq> Inr True"
    by (simp add: c1 split: option.splits)
  have c3: "flag_disagreement_binary64 el rl s thr = Inr (el \<noteq> rl \<and> \<bar>s - v\<bar> > thr)"
    if "numeric rl = Some v \<and> rnd64 (s - v) = s - v"
    using that by (simp add: c1)
  have c4: "flag_disagreement_binary64 el ''neutral'' s thr =
        Inr (el \<noteq> ''neutral'' \<and> \<bar>s - 0\<bar> > thr)" if "rnd64 s = s"
    using that by (simp add: c1 numeric_def)
  have c5: "el \<noteq> rl \<and> (\<exists>v. numeric rl = Some v \<and> \<bar>s - v\<bar> > thr)"
    if h: "rnd64 thr = thr \<and> flag_disagreement_binary64 el rl s thr = Inr True"
  proof -
    from h obtain v where v: "numeric rl = Some v" and ne: "el \<noteq> rl"
      and gt: "\<bar>rnd64 (s - v)\<bar> > thr"
      by (auto simp add: c1 split: option.splits)
    have "\<bar>s - v\<bar> > thr"
    proof (rule ccontr)
      assume "\<not> \<bar>s - v\<bar> > thr"
      then have "\<bar>s - v\<bar> \<le> thr" by simp
      with h have "\<bar>rnd64 (s - v)\<bar> \<le> thr" by (intro rnd64_abs_le) simp_all
      with gt show False by simp
    qed
    with v ne show ?thesis by blast
  qed
  have c6: "rnd64 default_threshold = default_threshold"
    using rnd64_half by (simp add: default_threshold_def)
  from c1 c2 c3 c4 c5 c6 show ?thesis by blast
qed

theorem flag_binary64_iff_witness:
  "flag_disagreement_binary64 ''positive'' ''neutral'' 1 (1 / 2) = Inr True \<and>
   flag_disagreement_binary64 ''positive'' ''negative'' 1 (1 / 2) = Inr True \<and>
   \<bar>1 - (- 1)\<bar> > (1 / 2 :: real)"
proof -
  have n: "numeric ''negative'' = Some (- 1)" by (simp add: numeric_def)
  have r2: "rnd64 (1 - (- 1)) = 1 - (- 1)" using rnd64_2 by simp
  have r1: "rnd64 1 = 1" by (rule rnd64_1)
  have rh: "rnd64 (1 / 2) = 1 / 2" by (rule rnd64_half)
  note neg = flag_binary64_iff [of "''positive''" "''negative''" 1 "1 / 2" "''positive''" "- 1"]
  note neu = flag_binary64_iff [of "''positive''" "''neutral''" 1 "1 / 2" "''positive''" 0]
  from neg n r2 have a: "flag_disagreement_binary64 ''positive'' ''negative'' 1 (1 / 2) =
      Inr (''positive'' \<noteq> ''negative'' \<and> \<bar>1 - (- 1)\<bar> > (1 / 2 :: real))"
    by blast
  then have a': "flag_disagreement_binary64 ''positive'' ''negative'' 1 (1 / 2) = Inr True"
    by simp
  from neg rh a' have b: "\<exists>v. numeric ''negative'' = Some v \<and> \<bar>1 - v\<bar> > (1 / 2 :: real)"
    by blast
  from neu r1 have "flag_disagreement_binary64 ''positive'' ''neutral'' 1 (1 / 2) =
      Inr (''positive'' \<noteq> ''neutral'' \<and> \<bar>1 - 0\<bar> > (1 / 2 :: real))"
    by blast
  then have c: "flag_disagreement_binary64 ''positive'' ''neutral'' 1 (1 / 2) = Inr True"
    by simp
  from b n have "\<bar>1 - (- 1)\<bar> > (1 / 2 :: real)" by simp
  with a' c show ?thesis by simp
qed

text \<open>
  Claim C1, as stated, fails: for the labels positive and negative, the score
  -0.49999999999999994 (the binary64 number \<open>-(2^53 - 1) / 2^54\<close>) and the threshold
  0.5, the labels differ and the exact difference \<open>1/2 + 2^-54\<close> exceeds the threshold,
  but the difference rounds to 1/2 and the flag is false.
\<close>

theorem flag_binary64_rounds_down:
  "flag_disagreement_binary64 ''positive'' ''negative''
     (- (9007199254740991 / 18014398509481984)) (1 / 2) = Inr False \<and>
   ''positive'' \<noteq> ''negative'' \<and>
   \<bar>- (9007199254740991 / 18014398509481984) - (- 1)\<bar> > (1 / 2 :: real)"
proof -
  have "rnd64 (9007199254740993 / 18014398509481984) = 1 / 2"
    by (subst rnd64_eval [where e = "- 1"])
      (simp_all add: round_half_even_def Let_def power_int_minus)
  then show ?thesis
    by (simp add: flag_disagreement_binary64_def rule_vals_def)
qed

text \<open>
  Claim C2. The claim says that \<open>rule_label\<close> always lies in the set of labels the
  rating admits. The source does not do this at rating 1: a review scored 1.0 by the
  three scorers gets the label positive, \<open>apply_rating_rule\<close> falls back to neutral,
  and neutral is not in the set \<open>{negative}\<close> that both the source and the table give
  for rating 1. The comment of line 143 announces a fallback to the nearest allowed
  label.
\<close>

theorem rule_label_outside_allowed:
  "label (compute_ensemble \<lparr>bert_score = \<lambda>_. 1, vader_score = \<lambda>_. 1,
            textblob_score = \<lambda>_. 1\<rparr> text) = ''positive'' \<and>
   apply_rating_rule ''positive'' 1 = ''neutral'' \<and>
   allowed 1 = {''negative''} \<and>
   allowed_labels 1 = {''negative''} \<and>
   apply_rating_rule ''positive'' 1 \<notin> allowed_labels 1"
  by (simp add: compute_ensemble_def Let_def apply_rating_rule_def allowed_def
      allowed_labels_def)

text \<open>
  Claim C3. For every rating from 1 to 5 and every ensemble label,
  \<open>apply_rating_rule\<close> returns the ensemble label when the table admits it for that
  rating, and neutral otherwise. At rating 1 the labels positive and neutral both give
  neutral, although neutral is not admitted there, and negative gives negative.
\<close>

theorem apply_rating_rule_resolution:
  assumes "1 \<le> rating" and "rating \<le> 5"
  shows "apply_rating_rule l rating =
           (if l \<in> allowed_labels rating then l else ''neutral'') \<and>
         apply_rating_rule ''positive'' 1 = ''neutral'' \<and>
         apply_rating_rule ''neutral'' 1 = ''neutral'' \<and>
         ''neutral'' \<notin> allowed_labels 1 \<and>
         apply_rating_rule ''negative'' 1 = ''negative''"
proof -
  from assms have "rating = 1 \<or> rating = 2 \<or> rating = 3 \<or> rating = 4 \<or> rating = 5"
    by arith
  then have "allowed rating = allowed_labels rating"
    by (auto simp add: allowed_def allowed_labels_def)
  then show ?thesis
    by (simp add: apply_rating_rule_def allowed_def allowed_labels_def)
qed

theorem apply_rating_rule_resolution_witness:
  "apply_rating_rule ''positive'' 2 = ''neutral'' \<and>
   apply_rating_rule ''negative'' 2 = ''negative'' \<and>
   apply_rating_rule ''positive'' 4 = ''positive''"
  using apply_rating_rule_resolution [of 2 "''positive''"]
    apply_rating_rule_resolution [of 2 "''negative''"]
    apply_rating_rule_resolution [of 4 "''positive''"]
  by (simp add: allowed_labels_def)

text \<open>
  Claim C4. The label of \<open>compute_ensemble\<close> is positive exactly when the ensemble
  score is at least 0.05, negative exactly when it is at most -0.05, and neutral
  exactly in between. Every real number \<open>s\<close> is the ensemble score of some scorers, and
  the thresholds are inclusive: the score 0.05 gives positive, the score -0.05 gives
  negative.
\<close>

theorem label_thresholds:
  "(label (compute_ensemble self text) = ''positive'' \<longleftrightarrow>
      ensemble (compute_ensemble self text) \<ge> 0.05) \<and>
   (label (compute_ensemble self text) = ''negative'' \<longleftrightarrow>
      ensemble (compute_ensemble self text) \<le> - 0.05) \<and>
   (label (compute_ensemble self text) = ''neutral'' \<longleftrightarrow>
      - 0.05 < ensemble (compute_ensemble self text) \<and>
      ensemble (compute_ensemble self text) < 0.05) \<and>
   ensemble (compute_ensemble
      \<lparr>bert_score = \<lambda>_. s, vader_score = \<lambda>_. s, textblob_score = \<lambda>_. s\<rparr> text) = s \<and>
   label (compute_ensemble
      \<lparr>bert_score = \<lambda>_. 0.05, vader_score = \<lambda>_. 0.05, textblob_score = \<lambda>_. 0.05\<rparr> text)
     = ''positive'' \<and>
   label (compute_ensemble
      \<lparr>bert_score = \<lambda>_. - 0.05, vader_score = \<lambda>_. - 0.05, textblob_score = \<lambda>_. - 0.05\<rparr>
      text) = ''negative''"
  by (simp add: compute_ensemble_def Let_def)

text \<open>
  Claim C5, as amended. For scorer outputs in [-1, 1], the field \<open>ensemble\<close> of
  \<open>compute_ensemble\<close> in binary64 is the sum of the three outputs, taken from left to
  right, divided by 3, each of the three operations rounded to nearest; the weights
  are equal and there is no other weighting. It lies within \<open>2^-52\<close> of the exact mean
  \<open>(bert + vader + textblob) / 3\<close>. The fields \<open>bert\<close>, \<open>vader\<close> and \<open>textblob\<close> hold
  the outputs unchanged.
\<close>

theorem ensemble_binary64_near_mean:
  assumes "\<bar>bert_score self text\<bar> \<le> 1" and "\<bar>vader_score self text\<bar> \<le> 1"
    and "\<bar>textblob_score self text\<bar> \<le> 1"
  shows "ensemble (compute_ensemble_binary64 self text) =
           rnd64 (rnd64 (rnd64 (bert_score self text + vader_score self text)
                         + textblob_score self text) / 3) \<and>
         \<bar>ensemble (compute_ensemble_binary64 self text) -
          (bert_score self text + vader_score self text + textblob_score self text) / 3\<bar>
           \<le> 2 powi (- 52) \<and>
         bert (compute_ensemble_binary64 self text) = bert_score self text \<and>
         vader (compute_ensemble_binary64 self text) = vader_score self text \<and>
         textblob (compute_ensemble_binary64 self text) = textblob_score self text"
proof -
  define b v t where "b = bert_score self text" and "v = vader_score self text"
    and "t = textblob_score self text"
  define s1 s2 q where "s1 = rnd64 (b + v)" and "s2 = rnd64 (s1 + t)" and "q = rnd64 (s2 / 3)"
  have bv: "\<bar>b\<bar> \<le> 1" "\<bar>v\<bar> \<le> 1" "\<bar>t\<bar> \<le> 1" using assms by (simp_all add: b_def v_def t_def)
  have p53: "(2::real) powi (- 53) = 1 / 9007199254740992"
    and p52: "(2::real) powi (- 52) = 1 / 4503599627370496"
    by (simp_all add: power_int_minus field_simps)
  have e1: "\<bar>s1 - (b + v)\<bar> \<le> 2 powi (- 53)"
    unfolding s1_def using bv rnd64_error_le [of "b + v" 0] by simp
  have "\<bar>s1 + t\<bar> < 4" using e1 bv unfolding p53 by linarith
  then have "\<bar>s1 + t\<bar> < 2 powi (1 + 1)" by simp
  then have e2: "\<bar>s2 - (s1 + t)\<bar> \<le> 2 powi (- 52)"
    unfolding s2_def using rnd64_error [of "s1 + t" 1] by simp
  have "\<bar>s2 / 3\<bar> < 2" using e1 e2 bv unfolding p53 p52 by linarith
  then have "\<bar>s2 / 3\<bar> < 2 powi (0 + 1)" by simp
  then have e3: "\<bar>q - s2 / 3\<bar> \<le> 2 powi (- 53)"
    unfolding q_def using rnd64_error [of "s2 / 3" 0] by simp
  define d1 d2 d3 where "d1 = s1 - (b + v)" and "d2 = s2 - (s1 + t)" and "d3 = q - s2 / 3"
  have split: "q - (b + v + t) / 3 = d3 + (d1 + d2) / 3"
    by (simp add: d1_def d2_def d3_def field_simps)
  have "\<bar>d1\<bar> \<le> 1 / 9007199254740992" "\<bar>d2\<bar> \<le> 1 / 4503599627370496"
    "\<bar>d3\<bar> \<le> 1 / 9007199254740992"
    using e1 e2 e3 unfolding p53 p52 d1_def d2_def d3_def by simp_all
  then have "\<bar>d3 + (d1 + d2) / 3\<bar> \<le> 1 / 4503599627370496"
    by argo
  then have "\<bar>q - (b + v + t) / 3\<bar> \<le> 2 powi (- 52)"
    unfolding split p52 .
  then show ?thesis
    by (simp add: compute_ensemble_binary64_def Let_def b_def v_def t_def s1_def s2_def q_def)
qed

theorem ensemble_binary64_near_mean_witness:
  "\<bar>ensemble (compute_ensemble_binary64
       \<lparr>bert_score = \<lambda>_. 3602879701896397 / 72057594037927936,
        vader_score = \<lambda>_. 3602879701896397 / 72057594037927936,
        textblob_score = \<lambda>_. 3602879701896397 / 72057594037927936\<rparr> ''good'') -
    (3602879701896397 / 72057594037927936 + 3602879701896397 / 72057594037927936 +
     3602879701896397 / 72057594037927936) / 3\<bar> \<le> 2 powi (- 52)"
proof -
  let ?self = "\<lparr>bert_score = \<lambda>_. 3602879701896397 / 72057594037927936,
        vader_score = \<lambda>_. 3602879701896397 / 72057594037927936,
        textblob_score = \<lambda>_. 3602879701896397 / 72057594037927936\<rparr>"
  have h: "\<bar>bert_score ?self ''good''\<bar> \<le> 1" "\<bar>vader_score ?self ''good''\<bar> \<le> 1"
    "\<bar>textblob_score ?self ''good''\<bar> \<le> 1"
    by simp_all
  have "\<bar>ensemble (compute_ensemble_binary64 ?self ''good'') -
      (bert_score ?self ''good'' + vader_score ?self ''good'' + textblob_score ?self ''good'') / 3\<bar>
      \<le> 2 powi (- 52)"
    using ensemble_binary64_near_mean [OF h] by blast
  then show ?thesis by (simp only: ensembler.simps)
qed

text \<open>
  Claim C5, as stated, fails: for three scores 0.05 (the binary64 number
  \<open>3602879701896397 / 2^56\<close>) the exact mean is that same number,
  \<open>7205759403792794 / 2^57\<close>, and the field \<open>ensemble\<close> is its upper neighbour
  \<open>7205759403792795 / 2^57\<close>, printed 0.05000000000000001.
\<close>

theorem ensemble_binary64_not_mean:
  "ensemble (compute_ensemble_binary64
       \<lparr>bert_score = \<lambda>_. 3602879701896397 / 72057594037927936,
        vader_score = \<lambda>_. 3602879701896397 / 72057594037927936,
        textblob_score = \<lambda>_. 3602879701896397 / 72057594037927936\<rparr> ''good'')
     = 7205759403792795 / 144115188075855872 \<and>
   (3602879701896397 / 72057594037927936 + 3602879701896397 / 72057594037927936 +
    3602879701896397 / 72057594037927936) / 3
     = (7205759403792794 / 144115188075855872 :: real) \<and>
   ensemble (compute_ensemble_binary64
       \<lparr>bert_score = \<lambda>_. 3602879701896397 / 72057594037927936,
        vader_score = \<lambda>_. 3602879701896397 / 72057594037927936,
        textblob_score = \<lambda>_. 3602879701896397 / 72057594037927936\<rparr> ''good'')
     \<noteq> (3602879701896397 / 72057594037927936 + 3602879701896397 / 72057594037927936 +
        3602879701896397 / 72057594037927936) / 3"
proof -
  have r1: "rnd64 (3602879701896397 / 36028797018963968) = 3602879701896397 / 36028797018963968"
    by (subst rnd64_eval [where e = "- 4"])
      (simp_all add: round_half_even_def Let_def power_int_minus)
  have r2: "rnd64 (10808639105689191 / 72057594037927936) = 5404319552844596 / 36028797018963968"
    by (subst rnd64_eval [where e = "- 3"])
      (simp_all add: round_half_even_def Let_def power_int_minus)
  have r3: "rnd64 (5404319552844596 / 108086391056891904) = 7205759403792795 / 144115188075855872"
    by (subst rnd64_eval [where e = "- 5"])
      (simp_all add: round_half_even_def Let_def power_int_minus)
  let ?c = "3602879701896397 / 72057594037927936 :: real"
  have a1: "?c + ?c = 3602879701896397 / 36028797018963968" by simp
  have a2: "3602879701896397 / 36028797018963968 + ?c = 10808639105689191 / 72057594037927936"
    by simp
  have a3: "(5404319552844596 / 36028797018963968 :: real) / 3 =
      5404319552844596 / 108086391056891904" by simp
  have "rnd64 (rnd64 (rnd64 (?c + ?c) + ?c) / 3) = 7205759403792795 / 144115188075855872"
    by (simp only: a1 r1 a2 r2 a3 r3)
  then show ?thesis
    by (simp add: compute_ensemble_binary64_def Let_def)
qed




text \<open>
  Claim C7. Let the input frame have one cell per column in every row, distinct
  column labels, the text column and the column \<open>rating\<close>, and in every row a rating
  that \<open>int\<close> converts. Then \<open>run\<close> returns a frame with as many rows as the input;
  its row \<open>i\<close> is row \<open>i\<close> of the input followed by the eight values the loop body
  computes for that row, under the column labels bert, vader, textblob, ensemble,
  label, uncertainty, rule_label and flag, in this order after the input's columns.
\<close>

theorem run_one_record_per_input:
  assumes wf: "\<forall>row\<in>set (rows df). length row = length (columns df)"
    and dist: "distinct (columns df)"
    and tc: "text_col \<in> set (columns df)"
    and rc: "''rating'' \<in> set (columns df)"
    and ints: "\<forall>row\<in>set (rows df). \<exists>c n.
                 getitem (columns df) row ''rating'' = Inr c \<and> py_int c = Inr n"
  shows "\<exists>out. run self df text_col = Inr out \<and>
           length (rows out) = length (rows df) \<and>
           (\<forall>i<length (rows df). \<exists>rec.
              run_row self (columns df) text_col (rows df ! i) = Inr rec \<and>
              columns out =
                columns df @
                [''bert'', ''vader'', ''textblob'', ''ensemble'', ''label'', ''uncertainty'',
                 ''rule_label'', ''flag''] \<and>
              rows out ! i =
                map Obj (rows df ! i) @
                [Float (bert rec), Float (vader rec), Float (textblob rec),
                 Float (ensemble rec), Str (label rec), Float (uncertainty rec),
                 Str (rule_label rec), Bool (flag rec)])"
proof -
  have "\<forall>row\<in>set (rows df). \<exists>rec. run_row self (columns df) text_col row = Inr rec"
  proof
    fix row assume row: "row \<in> set (rows df)"
    with wf tc obtain c1 where c1: "getitem (columns df) row text_col = Inr c1"
      using getitem_present by blast
    from ints row obtain c2 n where
      "getitem (columns df) row ''rating'' = Inr c2" "py_int c2 = Inr n"
      by blast
    then show "\<exists>rec. run_row self (columns df) text_col row = Inr rec"
      using run_row_returns [OF c1] by blast
  qed
  then obtain recs where loop: "run_loop self (columns df) text_col [] (rows df) = Inr ([] @ recs)"
    and len: "length recs = length (rows df)"
    and nth: "\<forall>i<length (rows df). run_row self (columns df) text_col (rows df ! i) = Inr (recs ! i)"
    using run_loop_returns [of "rows df" self "columns df" text_col "[]"] by blast
  let ?out = "concat_axis1 \<lparr>columns = columns df, rows = map (map Obj) (rows df)\<rparr> (DataFrame recs)"
  have run: "run self df text_col = Inr ?out"
    using tc rc loop by (simp add: run_def)
  have l: "length (rows ?out) = length (rows df)"
    using len by (simp add: concat_axis1_def DataFrame_def)
  have "\<exists>rec. run_row self (columns df) text_col (rows df ! i) = Inr rec \<and>
          columns ?out = columns df @ record_columns \<and>
          rows ?out ! i = map Obj (rows df ! i) @ record_cells rec"
    if i: "i < length (rows df)" for i
  proof -
    from i len have "recs \<noteq> []" by auto
    then have "columns ?out = columns df @ record_columns"
      by (simp add: concat_axis1_def DataFrame_def)
    moreover have "rows ?out ! i = map Obj (rows df ! i) @ record_cells (recs ! i)"
      using i len by (simp add: concat_axis1_def DataFrame_def)
    ultimately show ?thesis using nth i by blast
  qed
  then have "\<forall>i<length (rows df). \<exists>rec.
      run_row self (columns df) text_col (rows df ! i) = Inr rec \<and>
      columns ?out = columns df @ record_columns \<and>
      rows ?out ! i = map Obj (rows df ! i) @ record_cells rec"
    by blast
  then show ?thesis
    using run l unfolding record_columns_def record_cells_def by blast
qed

theorem run_one_record_per_input_witness:
  "run \<lparr>bert_score = \<lambda>_. 1, vader_score = \<lambda>_. 1, textblob_score = \<lambda>_. 1\<rparr>
     \<lparr>columns = [''normalized_review'', ''rating''],
      rows = [[\<lparr>py_str = ''great app'', py_int = Inl ValueError\<rparr>,
               \<lparr>py_str = ''1'', py_int = Inr 1\<rparr>],
              [\<lparr>py_str = ''works'', py_int = Inl ValueError\<rparr>,
               \<lparr>py_str = ''5'', py_int = Inr 5\<rparr>]]\<rparr>
     ''normalized_review'' =
   Inr \<lparr>columns =
          [''normalized_review'', ''rating'', ''bert'', ''vader'', ''textblob'', ''ensemble'',
           ''label'', ''uncertainty'', ''rule_label'', ''flag''],
        rows =
          [[Obj \<lparr>py_str = ''great app'', py_int = Inl ValueError\<rparr>,
            Obj \<lparr>py_str = ''1'', py_int = Inr 1\<rparr>,
            Float 1, Float 1, Float 1, Float 1, Str ''positive'', Float 0,
            Str ''neutral'', Bool True],
           [Obj \<lparr>py_str = ''works'', py_int = Inl ValueError\<rparr>,
            Obj \<lparr>py_str = ''5'', py_int = Inr 5\<rparr>,
            Float 1, Float 1, Float 1, Float 1, Str ''positive'', Float 0,
            Str ''positive'', Bool False]]\<rparr>"
proof -
  let ?self = "\<lparr>bert_score = \<lambda>_. 1, vader_score = \<lambda>_. 1, textblob_score = \<lambda>_. 1\<rparr>"
  let ?r1 = "[\<lparr>py_str = ''great app'', py_int = Inl ValueError\<rparr>,
               \<lparr>py_str = ''1'', py_int = Inr 1\<rparr>]"
  let ?r2 = "[\<lparr>py_str = ''works'', py_int = Inl ValueError\<rparr>,
               \<lparr>py_str = ''5'', py_int = Inr 5\<rparr>]"
  let ?df = "\<lparr>columns = [''normalized_review'', ''rating''], rows = [?r1, ?r2]\<rparr>"
  have wf: "\<forall>row\<in>set (rows ?df). length row = length (columns ?df)" by simp
  have dist: "distinct (columns ?df)" by simp
  have tc: "''normalized_review'' \<in> set (columns ?df)" by simp
  have rc: "''rating'' \<in> set (columns ?df)" by simp
  have ints: "\<forall>row\<in>set (rows ?df). \<exists>c n.
                 getitem (columns ?df) row ''rating'' = Inr c \<and> py_int c = Inr n"
    by (simp add: getitem_def)
  have r1: "run_row ?self [''normalized_review'', ''rating''] ''normalized_review'' ?r1 =
      Inr \<lparr>bert = 1, vader = 1, textblob = 1, ensemble = 1, label = ''positive'',
           uncertainty = 0, rule_label = ''neutral'', flag = True\<rparr>"
    by (simp add: run_row_def getitem_def compute_ensemble_def Let_def
        apply_rating_rule_def allowed_def flag_disagreement_def rule_vals_def
        default_threshold_def np_std_def np_mean_def ensemble_result.defs
        sentiment_record.defs)
  have r2: "run_row ?self [''normalized_review'', ''rating''] ''normalized_review'' ?r2 =
      Inr \<lparr>bert = 1, vader = 1, textblob = 1, ensemble = 1, label = ''positive'',
           uncertainty = 0, rule_label = ''positive'', flag = False\<rparr>"
    by (simp add: run_row_def getitem_def compute_ensemble_def Let_def
        apply_rating_rule_def allowed_def flag_disagreement_def rule_vals_def
        default_threshold_def np_std_def np_mean_def ensemble_result.defs
        sentiment_record.defs)
  from run_one_record_per_input [OF wf dist tc rc ints, of ?self]
  obtain out where out: "run ?self ?df ''normalized_review'' = Inr out"
    and len: "length (rows out) = length (rows ?df)"
    and nth: "\<forall>i<length (rows ?df). \<exists>rec.
        run_row ?self (columns ?df) ''normalized_review'' (rows ?df ! i) = Inr rec \<and>
        columns out =
          columns ?df @
          [''bert'', ''vader'', ''textblob'', ''ensemble'', ''label'', ''uncertainty'',
           ''rule_label'', ''flag''] \<and>
        rows out ! i =
          map Obj (rows ?df ! i) @
          [Float (bert rec), Float (vader rec), Float (textblob rec),
           Float (ensemble rec), Str (label rec), Float (uncertainty rec),
           Str (rule_label rec), Bool (flag rec)]"
    by blast
  from nth [rule_format, of 0] r1 have
    c: "columns out =
          [''normalized_review'', ''rating'', ''bert'', ''vader'', ''textblob'', ''ensemble'',
           ''label'', ''uncertainty'', ''rule_label'', ''flag'']"
    and o1: "rows out ! 0 =
          [Obj \<lparr>py_str = ''great app'', py_int = Inl ValueError\<rparr>,
            Obj \<lparr>py_str = ''1'', py_int = Inr 1\<rparr>,
            Float 1, Float 1, Float 1, Float 1, Str ''positive'', Float 0,
            Str ''neutral'', Bool True]"
    by auto
  from nth [rule_format, of 1] r2 have
    o2: "rows out ! 1 =
          [Obj \<lparr>py_str = ''works'', py_int = Inl ValueError\<rparr>,
            Obj \<lparr>py_str = ''5'', py_int = Inr 5\<rparr>,
            Float 1, Float 1, Float 1, Float 1, Str ''positive'', Float 0,
            Str ''positive'', Bool False]"
    by auto
  from len have "length (rows out) = 2" by simp
  then have "rows out = [rows out ! 0, rows out ! 1]"
    by (cases "rows out"; cases "tl (rows out)") auto
  with o1 o2 have "rows out =
          [[Obj \<lparr>py_str = ''great app'', py_int = Inl ValueError\<rparr>,
            Obj \<lparr>py_str = ''1'', py_int = Inr 1\<rparr>,
            Float 1, Float 1, Float 1, Float 1, Str ''positive'', Float 0,
            Str ''neutral'', Bool True],
           [Obj \<lparr>py_str = ''works'', py_int = Inl ValueError\<rparr>,
            Obj \<lparr>py_str = ''5'', py_int = Inr 5\<rparr>,
            Float 1, Float 1, Float 1, Float 1, Str ''positive'', Float 0,
            Str ''positive'', Bool False]]"
    by simp
  with c out show ?thesis by (cases out) simp
qed

text \<open>
  Claim C8, as amended. When the text column or the column \<open>rating\<close> is absent from
  the frame, \<open>run\<close> raises \<open>KeyError\<close> for the whole input, whatever the rows hold.
  When both columns are present, in a frame with distinct labels and one cell per
  column in every row, the check of line 194 raises nothing and the outcome of \<open>run\<close>
  is that of the loop over the rows; if \<open>int\<close> then rejects the rating cell of some
  row, \<open>run\<close> raises an error.
\<close>

theorem run_key_error:
  "(text_col \<notin> set (columns df) \<or> ''rating'' \<notin> set (columns df) \<longrightarrow>
      run self df text_col = Inl KeyError) \<and>
   (text_col \<in> set (columns df) \<and> ''rating'' \<in> set (columns df) \<and>
    distinct (columns df) \<and> (\<forall>row\<in>set (rows df). length row = length (columns df)) \<longrightarrow>
      run self df text_col =
        (case run_loop self (columns df) text_col [] (rows df) of
           Inl e \<Rightarrow> Inl e
         | Inr records \<Rightarrow>
             Inr (concat_axis1 \<lparr>columns = columns df, rows = map (map Obj) (rows df)\<rparr>
                    (DataFrame records)))) \<and>
   (text_col \<in> set (columns df) \<and> ''rating'' \<in> set (columns df) \<and>
    distinct (columns df) \<and> (\<forall>row\<in>set (rows df). length row = length (columns df)) \<and>
    (\<exists>row\<in>set (rows df). \<exists>c e.
       getitem (columns df) row ''rating'' = Inr c \<and> py_int c = Inl e) \<longrightarrow>
      (\<exists>e. run self df text_col = Inl e))"
proof (intro conjI impI)
  assume "text_col \<notin> set (columns df) \<or> ''rating'' \<notin> set (columns df)"
  then show "run self df text_col = Inl KeyError"
    by (auto simp add: run_def)
next
  assume "text_col \<in> set (columns df) \<and> ''rating'' \<in> set (columns df) \<and>
    distinct (columns df) \<and> (\<forall>row\<in>set (rows df). length row = length (columns df))"
  then have "text_col \<in> set (columns df)" "''rating'' \<in> set (columns df)" by blast+
  then show "run self df text_col =
        (case run_loop self (columns df) text_col [] (rows df) of
           Inl e \<Rightarrow> Inl e
         | Inr records \<Rightarrow>
             Inr (concat_axis1 \<lparr>columns = columns df, rows = map (map Obj) (rows df)\<rparr>
                    (DataFrame records)))"
    by (simp add: run_def)
next
  assume a: "text_col \<in> set (columns df) \<and> ''rating'' \<in> set (columns df) \<and>
    distinct (columns df) \<and> (\<forall>row\<in>set (rows df). length row = length (columns df)) \<and>
    (\<exists>row\<in>set (rows df). \<exists>c e.
       getitem (columns df) row ''rating'' = Inr c \<and> py_int c = Inl e)"
  then have tc: "text_col \<in> set (columns df)" and rc: "''rating'' \<in> set (columns df)"
    and wf: "\<forall>row\<in>set (rows df). length row = length (columns df)"
    by blast+
  from a obtain row c e where row: "row \<in> set (rows df)"
    and c: "getitem (columns df) row ''rating'' = Inr c" and e: "py_int c = Inl e"
    by blast
  from wf row tc obtain c1 where c1: "getitem (columns df) row text_col = Inr c1"
    using getitem_present by blast
  have bad: "run_row self (columns df) text_col row = Inl e"
    using c1 c e by (simp add: run_row_def Let_def)
  have "\<exists>e'. run_loop self (columns df) text_col acc rs = Inl e'"
    if "row \<in> set rs" for acc rs
    using that
  proof (induction rs arbitrary: acc)
    case Nil
    then show ?case by simp
  next
    case (Cons r rs)
    show ?case
    proof (cases "run_row self (columns df) text_col r")
      case (Inl e')
      then show ?thesis by simp
    next
      case (Inr rec)
      with bad have "r \<noteq> row" by auto
      with Cons.prems have "row \<in> set rs" by simp
      then show ?thesis using Cons.IH Inr by simp
    qed
  qed
  then obtain e' where "run_loop self (columns df) text_col [] (rows df) = Inl e'"
    using row by blast
  then show "\<exists>e. run self df text_col = Inl e"
    using tc rc by (simp add: run_def)
qed

theorem run_key_error_witness:
  "run \<lparr>bert_score = \<lambda>_. 1, vader_score = \<lambda>_. 1, textblob_score = \<lambda>_. 1\<rparr>
     \<lparr>columns = [''review'', ''rating''],
      rows = [[\<lparr>py_str = ''great app'', py_int = Inl ValueError\<rparr>,
               \<lparr>py_str = ''5'', py_int = Inr 5\<rparr>]]\<rparr>
     ''normalized_review'' = Inl KeyError \<and>
   (\<exists>e. run \<lparr>bert_score = \<lambda>_. 1, vader_score = \<lambda>_. 1, textblob_score = \<lambda>_. 1\<rparr>
     \<lparr>columns = [''normalized_review'', ''rating''],
      rows = [[\<lparr>py_str = ''great app'', py_int = Inl ValueError\<rparr>,
               \<lparr>py_str = ''nan'', py_int = Inl ValueError\<rparr>]]\<rparr>
     ''normalized_review'' = Inl e) \<and>
   run \<lparr>bert_score = \<lambda>_. 1, vader_score = \<lambda>_. 1, textblob_score = \<lambda>_. 1\<rparr>
     \<lparr>columns = [''normalized_review'', ''rating''],
      rows = [[\<lparr>py_str = ''great app'', py_int = Inl ValueError\<rparr>,
               \<lparr>py_str = ''nan'', py_int = Inl ValueError\<rparr>]]\<rparr>
     ''normalized_review'' = Inl ValueError"
proof -
  let ?self = "\<lparr>bert_score = \<lambda>_. 1, vader_score = \<lambda>_. 1, textblob_score = \<lambda>_. 1\<rparr>"
  let ?a = "\<lparr>columns = [''review'', ''rating''],
      rows = [[\<lparr>py_str = ''great app'', py_int = Inl ValueError\<rparr>,
               \<lparr>py_str = ''5'', py_int = Inr 5\<rparr>]]\<rparr>"
  let ?b = "\<lparr>columns = [''normalized_review'', ''rating''],
      rows = [[\<lparr>py_str = ''great app'', py_int = Inl ValueError\<rparr>,
               \<lparr>py_str = ''nan'', py_int = Inl ValueError\<rparr>]]\<rparr>"
  note absent = run_key_error [of "''normalized_review''" ?a ?self]
  note present = run_key_error [of "''normalized_review''" ?b ?self]
  have ha: "''normalized_review'' \<notin> set (columns ?a) \<or> ''rating'' \<notin> set (columns ?a)"
    by simp
  have hb: "''normalized_review'' \<in> set (columns ?b) \<and> ''rating'' \<in> set (columns ?b) \<and>
    distinct (columns ?b) \<and> (\<forall>row\<in>set (rows ?b). length row = length (columns ?b))"
    by simp
  have hc: "\<exists>row\<in>set (rows ?b). \<exists>c e.
       getitem (columns ?b) row ''rating'' = Inr c \<and> py_int c = Inl e"
    by (simp add: getitem_def)
  have loop: "run_loop ?self (columns ?b) ''normalized_review'' [] (rows ?b) = Inl ValueError"
    by (simp add: run_row_def getitem_def)
  from absent ha have a: "run ?self ?a ''normalized_review'' = Inl KeyError" by blast
  from present hb hc have b: "\<exists>e. run ?self ?b ''normalized_review'' = Inl e" by blast
  from present hb have "run ?self ?b ''normalized_review'' =
        (case run_loop ?self (columns ?b) ''normalized_review'' [] (rows ?b) of
           Inl e \<Rightarrow> Inl e
         | Inr records \<Rightarrow>
             Inr (concat_axis1 \<lparr>columns = columns ?b, rows = map (map Obj) (rows ?b)\<rparr>
                    (DataFrame records)))"
    by blast
  then have c: "run ?self ?b ''normalized_review'' = Inl ValueError"
    by (simp only: loop sum.case)
  from a b c show ?thesis by blast
qed

text \<open>
  Claim C8, as stated, fails: on a frame of two records without the column
  \<open>rating\<close> the source raises \<open>KeyError\<close> for the whole input, which is not the
  \<open>ValidationError\<close> of the claim, and no single record is set aside.
\<close>

theorem run_raises_no_validation_error:
  "run \<lparr>bert_score = \<lambda>_. 1, vader_score = \<lambda>_. 1, textblob_score = \<lambda>_. 1\<rparr>
     \<lparr>columns = [''normalized_review''],
      rows = [[\<lparr>py_str = ''great app'', py_int = Inl ValueError\<rparr>],
              [\<lparr>py_str = ''bad app'', py_int = Inl ValueError\<rparr>]]\<rparr>
     ''normalized_review'' = Inl KeyError \<and>
   run \<lparr>bert_score = \<lambda>_. 1, vader_score = \<lambda>_. 1, textblob_score = \<lambda>_. 1\<rparr>
     \<lparr>columns = [''normalized_review''],
      rows = [[\<lparr>py_str = ''great app'', py_int = Inl ValueError\<rparr>],
              [\<lparr>py_str = ''bad app'', py_int = Inl ValueError\<rparr>]]\<rparr>
     ''normalized_review'' \<noteq> Inl ValidationError"
  by (simp add: run_def)

text \<open>
  Claim C9. For every rating from 1 to 5 and every result of \<open>compute_ensemble\<close>,
  the flag that \<open>flag_disagreement\<close> computes at the default threshold from the
  label of the result, the rule label \<open>apply_rating_rule\<close> gives for it and its
  ensemble score is true exactly when the rating is 1 or 2 and the score is greater
  than 0.5. The same holds for the record the loop body of \<open>run\<close> builds for a row
  whose rating is from 1 to 5.
\<close>

theorem composed_flag_simple:
  assumes "1 \<le> rating" and "rating \<le> 5"
  shows "flag_disagreement (label (compute_ensemble self text))
           (apply_rating_rule (label (compute_ensemble self text)) rating)
           (ensemble (compute_ensemble self text)) default_threshold =
           Inr (simple_flag rating (ensemble (compute_ensemble self text))) \<and>
         (getitem cols row text_col = Inr text_cell \<and> getitem cols row ''rating'' = Inr rating_cell \<and>
          py_int rating_cell = Inr rating \<and> run_row self cols text_col row = Inr rec \<longrightarrow>
            flag rec = simple_flag rating (ensemble rec))"
proof -
  from assms have cases: "rating = 1 \<or> rating = 2 \<or> rating = 3 \<or> rating = 4 \<or> rating = 5"
    by arith
  have comp: "flag_disagreement (label (compute_ensemble self' t))
           (apply_rating_rule (label (compute_ensemble self' t)) rating)
           (ensemble (compute_ensemble self' t)) default_threshold =
           Inr (simple_flag rating (ensemble (compute_ensemble self' t)))" for self' t
    using cases
    by (auto simp add: compute_ensemble_def Let_def apply_rating_rule_def allowed_def
        flag_disagreement_def map_of_rule_vals default_threshold_def simple_flag_def)
  have "flag rec = simple_flag rating (ensemble rec)"
    if "getitem cols row text_col = Inr text_cell" "getitem cols row ''rating'' = Inr rating_cell"
      "py_int rating_cell = Inr rating" "run_row self cols text_col row = Inr rec"
    using run_row_fields [OF that] comp [of self "py_str text_cell"] by auto
  with comp show ?thesis by blast
qed

theorem composed_flag_simple_witness:
  "flag_disagreement
     (label (compute_ensemble
               \<lparr>bert_score = \<lambda>_. 1, vader_score = \<lambda>_. 1, textblob_score = \<lambda>_. 1\<rparr>
               ''great app''))
     (apply_rating_rule
        (label (compute_ensemble
                  \<lparr>bert_score = \<lambda>_. 1, vader_score = \<lambda>_. 1, textblob_score = \<lambda>_. 1\<rparr>
                  ''great app'')) 1)
     (ensemble (compute_ensemble
                  \<lparr>bert_score = \<lambda>_. 1, vader_score = \<lambda>_. 1, textblob_score = \<lambda>_. 1\<rparr>
                  ''great app''))
     default_threshold = Inr True \<and>
   (\<exists>rec.
      run_row \<lparr>bert_score = \<lambda>_. 1, vader_score = \<lambda>_. 1, textblob_score = \<lambda>_. 1\<rparr>
        [''normalized_review'', ''rating''] ''normalized_review''
        [\<lparr>py_str = ''great app'', py_int = Inl ValueError\<rparr>,
         \<lparr>py_str = ''1'', py_int = Inr 1\<rparr>] = Inr rec \<and>
      flag rec = simple_flag 1 (ensemble rec) \<and> flag rec)"
proof -
  let ?self = "\<lparr>bert_score = \<lambda>_. 1, vader_score = \<lambda>_. 1, textblob_score = \<lambda>_. 1\<rparr>"
  let ?cols = "[''normalized_review'', ''rating'']"
  let ?c1 = "\<lparr>py_str = ''great app'', py_int = Inl ValueError\<rparr>"
  let ?c2 = "\<lparr>py_str = ''1'', py_int = Inr 1\<rparr>"
  let ?rec = "\<lparr>bert = 1, vader = 1, textblob = 1, ensemble = 1, label = ''positive'',
           uncertainty = 0, rule_label = ''neutral'', flag = True\<rparr>"
  have bounds: "(1::int) \<le> 1" "(1::int) \<le> 5" by simp_all
  have g1: "getitem ?cols [?c1, ?c2] ''normalized_review'' = Inr ?c1"
    by (simp add: getitem_def)
  have g2: "getitem ?cols [?c1, ?c2] ''rating'' = Inr ?c2"
    by (simp add: getitem_def)
  have r: "run_row ?self ?cols ''normalized_review'' [?c1, ?c2] = Inr ?rec"
    by (simp add: run_row_def getitem_def compute_ensemble_def Let_def
        apply_rating_rule_def allowed_def flag_disagreement_def rule_vals_def
        default_threshold_def np_std_def np_mean_def ensemble_result.defs
        sentiment_record.defs)
  note inst = composed_flag_simple [OF bounds, of ?self "''great app''" ?cols "[?c1, ?c2]"
      "''normalized_review''" ?c1 ?c2 ?rec]
  from inst have "flag_disagreement (label (compute_ensemble ?self ''great app''))
      (apply_rating_rule (label (compute_ensemble ?self ''great app'')) 1)
      (ensemble (compute_ensemble ?self ''great app'')) default_threshold = Inr True"
    by (simp add: simple_flag_def compute_ensemble_def Let_def)
  moreover from inst g1 g2 r have "flag ?rec = simple_flag 1 (ensemble ?rec)"
    by simp
  ultimately show ?thesis using r by simp
qed

text \<open>
  Claim C10. For every rating and every ensemble label, the rule label is the
  ensemble label or neutral; the ensemble label neutral always gives the rule label
  neutral; and a review whose ensemble label is neutral is not flagged, whatever its
  score and the threshold.
\<close>

theorem rule_label_neutral_or_same:
  "(apply_rating_rule l r = l \<or> apply_rating_rule l r = ''neutral'') \<and>
   apply_rating_rule ''neutral'' r = ''neutral'' \<and>
   flag_disagreement ''neutral'' (apply_rating_rule ''neutral'' r) s thr = Inr False"
  by (simp add: apply_rating_rule_def flag_disagreement_def map_of_rule_vals)

end
